theory Spec2Isabelle
  imports Complex_Main "HOL-Library.Word"
begin

section \<open>Floating-point values\<close>

text \<open>
  The controls of \<^verbatim>\<open>IControls.h\<close> compute with \<^verbatim>\<open>float\<close> and \<^verbatim>\<open>double\<close>. Both are
  modelled by one type: an exact real number, the two infinities, or NaN. Rounding and
  the sign of zero are not modelled; every concrete evaluation below is made at values
  with a short binary expansion (integers, halves and quarters), where binary
  floating-point arithmetic is exact and the model agrees with the machine.
\<close>

datatype double = Num real | PInf | NInf | NaN

text \<open>Rounding towards zero, the rule of the C++ floating-integral conversion and of \<^verbatim>\<open>fmod\<close>.\<close>

definition trunc :: "real \<Rightarrow> int" where
  "trunc r = (if 0 \<le> r then \<lfloor>r\<rfloor> else - \<lfloor>- r\<rfloor>)"

text \<open>Conversion of \<^verbatim>\<open>bool\<close> to \<^verbatim>\<open>double\<close> and back (only zero converts to \<^verbatim>\<open>false\<close>).\<close>

definition d_of_bool :: "bool \<Rightarrow> double" where
  "d_of_bool b = (if b then Num 1 else Num 0)"

definition d_to_bool :: "double \<Rightarrow> bool" where
  "d_to_bool x = (x \<noteq> Num 0)"

text \<open>\<^verbatim>\<open>float(n)\<close> for an unsigned 32-bit \<^verbatim>\<open>n\<close>.\<close>

definition d_of_uint32 :: "32 word \<Rightarrow> double" where
  "d_of_uint32 w = Num (real (unat w))"

fun d_neg :: "double \<Rightarrow> double" where
  "d_neg (Num a) = Num (- a)"
| "d_neg PInf = NInf"
| "d_neg NInf = PInf"
| "d_neg NaN = NaN"

fun d_add :: "double \<Rightarrow> double \<Rightarrow> double" where
  "d_add NaN _ = NaN"
| "d_add _ NaN = NaN"
| "d_add (Num a) (Num b) = Num (a + b)"
| "d_add PInf NInf = NaN"
| "d_add NInf PInf = NaN"
| "d_add PInf _ = PInf"
| "d_add NInf _ = NInf"
| "d_add (Num a) PInf = PInf"
| "d_add (Num a) NInf = NInf"

definition d_sub :: "double \<Rightarrow> double \<Rightarrow> double" where
  "d_sub x y = d_add x (d_neg y)"

fun d_div :: "double \<Rightarrow> double \<Rightarrow> double" where
  "d_div NaN _ = NaN"
| "d_div _ NaN = NaN"
| "d_div (Num a) (Num b) =
     (if b = 0 then (if a = 0 then NaN else if 0 < a then PInf else NInf)
      else Num (a / b))"
| "d_div (Num a) _ = Num 0"
| "d_div PInf (Num b) = (if 0 \<le> b then PInf else NInf)"
| "d_div NInf (Num b) = (if 0 \<le> b then NInf else PInf)"
| "d_div _ _ = NaN"

text \<open>
  \<^verbatim>\<open>fmod(x, y)\<close>: the remainder of \<^verbatim>\<open>x / y\<close> with the quotient rounded towards zero;
  NaN when \<^verbatim>\<open>x\<close> is infinite or \<^verbatim>\<open>y\<close> is zero, and \<^verbatim>\<open>x\<close> itself when only \<^verbatim>\<open>y\<close>
  is infinite.
\<close>

fun d_fmod :: "double \<Rightarrow> double \<Rightarrow> double" where
  "d_fmod NaN _ = NaN"
| "d_fmod _ NaN = NaN"
| "d_fmod PInf _ = NaN"
| "d_fmod NInf _ = NaN"
| "d_fmod (Num a) (Num b) =
     (if b = 0 then NaN else Num (a - real_of_int (trunc (a / b)) * b))"
| "d_fmod (Num a) _ = Num a"

text \<open>
  Conversion of a floating-point value to an integer type truncates; C++ leaves the
  behaviour undefined when the truncated value is not representable in the target type
  (and for the infinities and NaN). \<open>None\<close> stands for that undefined conversion.
\<close>

definition d_to_int :: "double \<Rightarrow> int option" where
  "d_to_int x =
     (case x of
        Num v \<Rightarrow>
          (let t = trunc v
           in if - 2147483648 \<le> t \<and> t \<le> 2147483647 then Some t else None)
      | _ \<Rightarrow> None)"

definition d_to_uint32 :: "double \<Rightarrow> 32 word option" where
  "d_to_uint32 x =
     (case x of
        Num v \<Rightarrow>
          (let t = trunc v
           in if 0 \<le> t \<and> t \<le> 4294967295 then Some (word_of_int t) else None)
      | _ \<Rightarrow> None)"

section \<open>The host plugin and the base control\<close>

text \<open>
  Modelled from the spec: the host plugin object, to which the controls "delegate
  parameter range/automation semantics", and its parameter objects are declared outside
  this file (\<^verbatim>\<open>IPlugBaseGraphics\<close>, \<^verbatim>\<open>IParam\<close>). What the code of this file reads from
  them is taken as data: a parameter object gives its range (a \<^verbatim>\<open>double\<close>, which the
  button constructor converts with an explicit \<^verbatim>\<open>(uint32_t)\<close> cast), and the plugin's
  \<^verbatim>\<open>GetParam\<close> gives the parameter object of an index, or a null pointer (\<open>None\<close>) when
  there is none.
\<close>

record IParam =
  GetRange :: double

record IPlugBaseGraphics =
  GetParam :: "int \<Rightarrow> IParam option"

text \<open>
  Modelled from the spec: the constant \<^verbatim>\<open>kNoParameter\<close>, declared outside this file, is
  the parameter index of a control that is bound to no parameter ("a UI widget bound to
  zero or one automatable parameter"). It is the default of every \<^verbatim>\<open>paramIdx\<close>
  argument, and the value \<open>-1\<close> that the constructor's test \<^verbatim>\<open>paramIdx > -1\<close> separates
  from the indices of parameters.
\<close>

definition kNoParameter :: int where
  "kNoParameter = - 1"

datatype EDirection = kVertical | kHorizontal

datatype error = AssertionFailed | NullPointer | UndefinedConversion

text \<open>
  The members of the base class \<^verbatim>\<open>IControl\<close> that this file reads or writes: the bounds
  rectangle, the normalised value (a floating-point number: the code negates it, adds a
  \<^verbatim>\<open>float\<close> to it, passes it to \<^verbatim>\<open>fmod\<close> and divides it by a \<^verbatim>\<open>float\<close>) and the action
  function (\<open>None\<close> for \<^verbatim>\<open>nullptr\<close>). The rectangle type and the state of the GUI that
  an action function works on are declared elsewhere and stay type parameters.
\<close>

record ('rect, 'gui) IControl =
  mRECT :: 'rect
  mValue :: double
  mActionFunc :: "('gui \<Rightarrow> 'gui) option"

text \<open>
  A member function of the base class that is defined outside this file (\<^verbatim>\<open>SetDirty\<close>)
  is a parameter of the model: a function on the base-class part of the object. Called
  on a derived object it cannot touch the members the derived classes add.
\<close>

definition call_base ::
  "(('rect, 'gui) IControl \<Rightarrow> ('rect, 'gui) IControl) \<Rightarrow>
   ('rect, 'gui, 'z) IControl_scheme \<Rightarrow> ('rect, 'gui, 'z) IControl_scheme" where
  "call_base m c = IControl.extend (m (IControl.truncate c)) (IControl.more c)"

section \<open>IButtonControlBase\<close>

record ('rect, 'gui) IButtonControlBase = "('rect, 'gui) IControl" +
  mNumStates :: "32 word"

text \<open>
  The constructor. \<open>base\<close> is the object as the base-class constructor
  \<^verbatim>\<open>IControl(plug, rect, paramIdx, actionFunc)\<close> leaves it, and \<open>plug\<close> the plugin that
  \<^verbatim>\<open>mPlug\<close> refers to. Dereferencing a null parameter pointer, an undefined
  \<^verbatim>\<open>(uint32_t)\<close> conversion and a failed \<^verbatim>\<open>assert\<close> end the construction with an error.
  The cast binds tighter than \<^verbatim>\<open>+\<close>: the addition is done on \<^verbatim>\<open>uint32_t\<close> and wraps.
\<close>

definition IButtonControlBase_ctor ::
  "IPlugBaseGraphics \<Rightarrow> ('rect, 'gui) IControl \<Rightarrow> int \<Rightarrow> 32 word \<Rightarrow>
   error + ('rect, 'gui) IButtonControlBase" where
  "IButtonControlBase_ctor plug base paramIdx numStates =
     (case (if paramIdx > - 1
            then (case GetParam plug paramIdx of
                    None \<Rightarrow> Inl NullPointer
                  | Some p \<Rightarrow>
                      (case d_to_uint32 (GetRange p) of
                         None \<Rightarrow> Inl UndefinedConversion
                       | Some w \<Rightarrow> Inr (w + 1)))
            else Inr numStates) of
        Inl e \<Rightarrow> Inl e
      | Inr n \<Rightarrow>
          if n > 1 then Inr (IControl.extend base (IButtonControlBase.fields n))
          else Inl AssertionFailed)"

text \<open>
  \<^verbatim>\<open>OnMouseDown(x, y, mod)\<close>; the three arguments are not used by the body. \<open>gui\<close> is
  the state behind \<^verbatim>\<open>GetGUI()\<close>, which the action function may change.
\<close>

definition OnMouseDown ::
  "(('rect, 'gui) IControl \<Rightarrow> ('rect, 'gui) IControl) \<Rightarrow>
   ('rect, 'gui, 'z) IButtonControlBase_scheme \<Rightarrow> 'gui \<Rightarrow>
   ('rect, 'gui, 'z) IButtonControlBase_scheme \<times> 'gui" where
  "OnMouseDown SetDirty c gui =
     (let c1 = (if mNumStates c = 2
                then c\<lparr>mValue := d_of_bool (\<not> d_to_bool (mValue c))\<rparr>
                else (let step = d_sub (d_div (Num 1) (d_of_uint32 (mNumStates c))) (Num 1);
                          c' = c\<lparr>mValue := d_add (mValue c) step\<rparr>
                      in c'\<lparr>mValue := d_fmod (Num 1) (mValue c')\<rparr>));
          gui1 = (case mActionFunc c1 of None \<Rightarrow> gui | Some f \<Rightarrow> f gui)
      in (call_base SetDirty c1, gui1))"

section \<open>The graphics context\<close>

text \<open>
  The rectangle operations that \<^verbatim>\<open>Draw\<close> calls (\<^verbatim>\<open>SubRectHorizontal\<close>,
  \<^verbatim>\<open>SubRectVertical\<close>, \<^verbatim>\<open>GetPadded\<close>) and the default-constructed rectangle belong to
  \<^verbatim>\<open>IRECT\<close>, which is declared outside this file; they are parameters of the model.
\<close>

record 'rect IRECT_ops =
  IRECT_default :: 'rect
  SubRectHorizontal :: "'rect \<Rightarrow> 32 word \<Rightarrow> int \<Rightarrow> 'rect"
  SubRectVertical :: "'rect \<Rightarrow> 32 word \<Rightarrow> int \<Rightarrow> 'rect"
  GetPadded :: "'rect \<Rightarrow> int \<Rightarrow> 'rect"

text \<open>
  Modelled from the spec: \<^verbatim>\<open>IGraphics\<close>, declared outside this file, is the graphics
  context, "the rendering backend supplying primitive drawing operations (rectangles,
  bitmaps, text) consumed by controls". It is the sequence of the drawing operations
  issued so far, each with the arguments of the call.
\<close>

datatype ('rect, 'color, 'bitmap, 'text, 'blend) draw_op =
    OpFillRect 'color 'rect
  | OpDrawBitmapedText 'bitmap 'rect 'text 'blend string bool bool int int int

type_synonym ('rect, 'color, 'bitmap, 'text, 'blend) IGraphics =
  "('rect, 'color, 'bitmap, 'text, 'blend) draw_op list"

definition FillRect ::
  "'color \<Rightarrow> 'rect \<Rightarrow> ('rect, 'color, 'bitmap, 'text, 'blend) IGraphics \<Rightarrow>
   ('rect, 'color, 'bitmap, 'text, 'blend) IGraphics" where
  "FillRect color rect graphics = graphics @ [OpFillRect color rect]"

definition DrawBitmapedText ::
  "'bitmap \<Rightarrow> 'rect \<Rightarrow> 'text \<Rightarrow> 'blend \<Rightarrow> string \<Rightarrow> bool \<Rightarrow> bool \<Rightarrow> int \<Rightarrow> int \<Rightarrow> int \<Rightarrow>
   ('rect, 'color, 'bitmap, 'text, 'blend) IGraphics \<Rightarrow>
   ('rect, 'color, 'bitmap, 'text, 'blend) IGraphics" where
  "DrawBitmapedText bitmap rect text pBlend str vCenter multiline charWidth charHeight
     charOffset graphics =
     graphics @ [OpDrawBitmapedText bitmap rect text pBlend str vCenter multiline
                   charWidth charHeight charOffset]"

section \<open>IVSwitchControl\<close>

record ('rect, 'gui, 'color) IVSwitchControl = "('rect, 'gui) IButtonControlBase" +
  mStep :: double
  mFGColor :: 'color
  mBGColor :: 'color
  mDirection :: EDirection

definition IVSwitchControl_ctor ::
  "IPlugBaseGraphics \<Rightarrow> ('rect, 'gui) IControl \<Rightarrow> int \<Rightarrow> 'color \<Rightarrow> 'color \<Rightarrow> 32 word \<Rightarrow>
   EDirection \<Rightarrow> error + ('rect, 'gui, 'color) IVSwitchControl" where
  "IVSwitchControl_ctor plug base paramIdx fgColor bgColor numStates dir =
     (case IButtonControlBase_ctor plug base paramIdx numStates of
        Inl e \<Rightarrow> Inl e
      | Inr b \<Rightarrow>
          Inr (IButtonControlBase.extend b
                 (IVSwitchControl.fields
                    (d_sub (d_div (Num 1) (d_of_uint32 (mNumStates b))) (Num 1))
                    fgColor bgColor dir)))"

text \<open>
  The first statement of \<^verbatim>\<open>Draw\<close>: \<^verbatim>\<open>const int state = mValue / mStep;\<close>, where the
  conversion of the quotient is defined.
\<close>

definition IVSwitchControl_state ::
  "('rect, 'gui, 'color, 'z) IVSwitchControl_scheme \<Rightarrow> int option" where
  "IVSwitchControl_state c = d_to_int (d_div (mValue c) (mStep c))"

text \<open>
  Where that conversion is undefined (a quotient outside the range of \<^verbatim>\<open>int\<close>, infinite
  or NaN), C++ leaves the value of \<^verbatim>\<open>state\<close> open; the compiled code goes on with
  whatever \<^verbatim>\<open>int\<close> the conversion yields and draws with it. That \<^verbatim>\<open>int\<close>, as a function of
  the quotient, is the parameter \<open>platform_int\<close> of the model.
\<close>

definition IVSwitchControl_state_int ::
  "(double \<Rightarrow> int) \<Rightarrow> ('rect, 'gui, 'color, 'z) IVSwitchControl_scheme \<Rightarrow> int" where
  "IVSwitchControl_state_int platform_int c =
     (case IVSwitchControl_state c of
        Some state \<Rightarrow> state
      | None \<Rightarrow> platform_int (d_div (mValue c) (mStep c)))"

text \<open>
  \<^verbatim>\<open>Draw\<close> returns the control as it leaves it, with the graphics context. The two
  \<^verbatim>\<open>if\<close> statements on \<^verbatim>\<open>mDirection\<close> are kept as the source has them, one after the
  other.
\<close>

definition IVSwitchControl_Draw ::
  "'rect IRECT_ops \<Rightarrow> (double \<Rightarrow> int) \<Rightarrow> ('rect, 'gui, 'color, 'z) IVSwitchControl_scheme \<Rightarrow>
   ('rect, 'color, 'bitmap, 'text, 'blend) IGraphics \<Rightarrow>
   ('rect, 'gui, 'color, 'z) IVSwitchControl_scheme \<times>
   ('rect, 'color, 'bitmap, 'text, 'blend) IGraphics" where
  "IVSwitchControl_Draw ops platform_int c graphics =
     (let state = IVSwitchControl_state_int platform_int c;
          g1 = FillRect (mBGColor c) (mRECT c) graphics;
          handle0 = IRECT_default ops;
          handle1 = (if mDirection c = kHorizontal
                     then SubRectHorizontal ops (mRECT c) (mNumStates c) state
                     else handle0);
          handle2 = (if mDirection c = kVertical
                     then SubRectVertical ops (mRECT c) (mNumStates c) state
                     else handle1);
          handle3 = GetPadded ops handle2 (- 10);
          g2 = FillRect (mFGColor c) handle3 g1
      in (c, g2))"

section \<open>IBTextControl\<close>

text \<open>
  The members of the base class \<^verbatim>\<open>ITextControl\<close> that \<^verbatim>\<open>IBTextControl::Draw\<close> reads
  besides the rectangle: the text style and the blend.
\<close>

record ('rect, 'gui, 'text, 'blend) ITextControl = "('rect, 'gui) IControl" +
  mText :: 'text
  mBlend :: 'blend

record ('rect, 'gui, 'text, 'blend, 'bitmap) IBTextControl =
  "('rect, 'gui, 'text, 'blend) ITextControl" +
  mStr :: string
  mCharWidth :: int
  mCharHeight :: int
  mCharOffset :: int
  mMultiLine :: bool
  mVCentre :: bool
  mTextBitmap :: 'bitmap

text \<open>
  The constructor; \<open>base\<close> is the object as the base-class constructor
  \<^verbatim>\<open>ITextControl(plug, rect, text, str)\<close> leaves it. The last argument \<^verbatim>\<open>bl\<close> is received
  and not used.
\<close>

definition IBTextControl_ctor ::
  "('rect, 'gui, 'text, 'blend) ITextControl \<Rightarrow> 'bitmap \<Rightarrow> string \<Rightarrow> int \<Rightarrow> int \<Rightarrow> int \<Rightarrow>
   bool \<Rightarrow> bool \<Rightarrow> 'bl \<Rightarrow> ('rect, 'gui, 'text, 'blend, 'bitmap) IBTextControl" where
  "IBTextControl_ctor base textBitmap str charWidth charHeight charOffset multiLine vCenter bl =
     ITextControl.extend base
       (IBTextControl.fields str charWidth charHeight charOffset multiLine vCenter textBitmap)"

definition IBTextControl_Draw ::
  "('rect, 'gui, 'text, 'blend, 'bitmap, 'z) IBTextControl_scheme \<Rightarrow>
   ('rect, 'color, 'bitmap, 'text, 'blend) IGraphics \<Rightarrow>
   ('rect, 'gui, 'text, 'blend, 'bitmap, 'z) IBTextControl_scheme \<times>
   ('rect, 'color, 'bitmap, 'text, 'blend) IGraphics" where
  "IBTextControl_Draw c graphics =
     (c, DrawBitmapedText (mTextBitmap c) (mRECT c) (mText c) (mBlend c) (mStr c)
           (mVCentre c) (mMultiLine c) (mCharWidth c) (mCharHeight c) (mCharOffset c)
           graphics)"

section \<open>Example objects\<close>

text \<open>
  Concrete objects for the evaluations below. Rectangles are symbolic: the control's
  bounds, and the results of the rectangle operations applied to them.
\<close>

datatype ex_rect =
    Bounds
  | Empty
  | SubH ex_rect "32 word" int
  | SubV ex_rect "32 word" int
  | Padded ex_rect int

definition ex_ops :: "ex_rect IRECT_ops" where
  "ex_ops = \<lparr>IRECT_default = Empty, SubRectHorizontal = SubH, SubRectVertical = SubV,
             GetPadded = Padded\<rparr>"

text \<open>A plugin with one parameter, at index 0, of the given range.\<close>

definition ex_plug :: "real \<Rightarrow> IPlugBaseGraphics" where
  "ex_plug r = \<lparr>GetParam = (\<lambda>i. if i = 0 then Some \<lparr>GetRange = Num r\<rparr> else None)\<rparr>"

text \<open>A base object with the given value and no action function.\<close>

definition ex_base :: "double \<Rightarrow> (ex_rect, unit) IControl" where
  "ex_base v = \<lparr>mRECT = Bounds, mValue = v, mActionFunc = None\<rparr>"

text \<open>A button with the given number of states and value.\<close>

definition ex_button :: "32 word \<Rightarrow> double \<Rightarrow> (ex_rect, unit) IButtonControlBase" where
  "ex_button n v = \<lparr>mRECT = Bounds, mValue = v, mActionFunc = None, mNumStates = n\<rparr>"

text \<open>
  The switch that \<^verbatim>\<open>IVSwitchControl(plug, rect, kNoParameter, nullptr, fg, bg, n, dir)\<close>
  constructs, holding the given value: its step is \<open>1 / n - 1\<close>.
\<close>

definition ex_switch ::
  "32 word \<Rightarrow> EDirection \<Rightarrow> double \<Rightarrow> (ex_rect, unit, string) IVSwitchControl" where
  "ex_switch n dir v =
     \<lparr>mRECT = Bounds, mValue = v, mActionFunc = None, mNumStates = n,
      mStep = Num (1 / real (unat n) - 1), mFGColor = ''black'', mBGColor = ''white'',
      mDirection = dir\<rparr>"

text \<open>
  The conversion instruction of x86 yields the most negative \<^verbatim>\<open>int\<close> for every value it
  cannot convert.
\<close>

definition ex_platform_int :: "double \<Rightarrow> int" where
  "ex_platform_int x = - 2147483648"

definition ex_text_base :: "(ex_rect, unit, string, string) ITextControl" where
  "ex_text_base = \<lparr>mRECT = Bounds, mValue = Num 0, mActionFunc = None,
                   mText = ''style'', mBlend = ''blend''\<rparr>"

section \<open>Auxiliary facts\<close>

lemma d_to_uint32_Some:
  assumes "d_to_uint32 x = Some w"
  shows "\<exists>r. x = Num r \<and> 0 \<le> trunc r \<and> trunc r \<le> 4294967295 \<and> uint w = trunc r"
  using assms
  by (auto simp: d_to_uint32_def Let_def uint_word_of_int split: double.splits if_splits)

text \<open>An increment that passes the assertion \<^verbatim>\<open>mNumStates > 1\<close> has not wrapped around.\<close>

lemma uint_succ:
  fixes w :: "32 word"
  assumes "w + 1 > 1"
  shows "uint (w + 1) = uint w + 1"
proof -
  have nz: "w + 1 \<noteq> 0" using assms by auto
  have "uint w \<noteq> 4294967295"
  proof
    assume "uint w = 4294967295"
    then have "word_of_int (uint w) = (word_of_int 4294967295 :: 32 word)" by simp
    then have "w = - 1" by simp
    with nz show False by simp
  qed
  moreover have "0 \<le> uint w" "uint w < 4294967296"
    using uint_lt2p [of w] by simp_all
  ultimately have "uint w + 1 < 4294967296" "0 \<le> uint w + 1" by linarith+
  then show ?thesis
    by (simp add: uint_word_ariths)
qed

lemma trunc_range:
  assumes "1 \<le> r" "r < 4294967295"
  shows "1 \<le> trunc r \<and> trunc r \<le> 4294967294"
  using assms by (auto simp: trunc_def le_floor_iff floor_le_iff)

lemma ex_ctor_bound:
  "IButtonControlBase_ctor (ex_plug 3) (ex_base (Num 0)) 0 2 = Inr (ex_button 4 (Num 0))"
  by (simp add: IButtonControlBase_ctor_def ex_plug_def ex_base_def ex_button_def
      d_to_uint32_def trunc_def IControl.defs IButtonControlBase.defs)

lemma ex_ctor_unbound:
  "IButtonControlBase_ctor (ex_plug 3) (ex_base (Num 0)) kNoParameter 5 =
     Inr (ex_button 5 (Num 0))"
  by (simp add: IButtonControlBase_ctor_def ex_plug_def ex_base_def ex_button_def
      d_to_uint32_def trunc_def IControl.defs IButtonControlBase.defs kNoParameter_def)

lemma call_base_mValue: "mValue (call_base m c) = mValue (m (IControl.truncate c))"
  by (simp add: call_base_def IControl.defs)

lemma call_base_mNumStates: "mNumStates (call_base m c) = mNumStates c"
  by (cases c) (simp add: call_base_def IControl.defs)

lemma call_base_mStep: "mStep (call_base m c) = mStep c"
  by (cases c) (simp add: call_base_def IControl.defs)

lemma OnMouseDown_mNumStates: "mNumStates (fst (OnMouseDown SetDirty c gui)) = mNumStates c"
  by (simp add: OnMouseDown_def Let_def call_base_mNumStates)

lemma OnMouseDown_mStep: "mStep (fst (OnMouseDown SetDirty c gui)) = mStep c"
  by (simp add: OnMouseDown_def Let_def call_base_mStep)

lemma OnMouseDown_two_states:
  assumes "mNumStates c = 2"
  shows "fst (OnMouseDown SetDirty c gui) =
         call_base SetDirty (c\<lparr>mValue := d_of_bool (\<not> d_to_bool (mValue c))\<rparr>)"
  using assms by (simp add: OnMouseDown_def Let_def)

section \<open>The number of states of a button\<close>

text \<open>
  C1, as the code has it. When the constructor of \<^verbatim>\<open>IButtonControlBase\<close> returns an
  object: with a bound parameter (\<^verbatim>\<open>paramIdx > -1\<close>) the parameter exists, its range is a
  finite number, and \<^verbatim>\<open>mNumStates\<close> is that range rounded towards zero, plus one (the
  assertion excludes the wrap-around of the addition); with \<^verbatim>\<open>paramIdx = kNoParameter\<close>,
  \<^verbatim>\<open>mNumStates\<close> is the argument \<^verbatim>\<open>numStates\<close>.
\<close>

theorem IButtonControlBase_ctor_mNumStates:
  assumes "IButtonControlBase_ctor plug base paramIdx numStates = Inr c"
  shows "(paramIdx > - 1 \<longrightarrow>
            (\<exists>p r. GetParam plug paramIdx = Some p \<and> GetRange p = Num r \<and>
                   uint (mNumStates c) = trunc r + 1)) \<and>
         (paramIdx = kNoParameter \<longrightarrow> mNumStates c = numStates)"
proof (intro conjI impI)
  assume bound: "paramIdx > - 1"
  with assms obtain p w where p: "GetParam plug paramIdx = Some p"
    and w: "d_to_uint32 (GetRange p) = Some w"
    and n: "w + 1 > 1" "mNumStates c = w + 1"
    by (auto simp: IButtonControlBase_ctor_def IControl.defs IButtonControlBase.defs
        split: option.splits if_splits)
  from w obtain r where r: "GetRange p = Num r" "uint w = trunc r"
    using d_to_uint32_Some by blast
  have "uint (mNumStates c) = trunc r + 1"
    using n r uint_succ by simp
  with p r show "\<exists>p r. GetParam plug paramIdx = Some p \<and> GetRange p = Num r \<and>
                   uint (mNumStates c) = trunc r + 1"
    by blast
next
  assume "paramIdx = kNoParameter"
  with assms show "mNumStates c = numStates"
    by (auto simp: IButtonControlBase_ctor_def kNoParameter_def IControl.defs
        IButtonControlBase.defs split: if_splits)
qed

text \<open>
  Witness for C1: a parameter of range 3 gives a button of 4 states, and an unbound
  button constructed with \<^verbatim>\<open>numStates = 5\<close> has 5 states.
\<close>

theorem IButtonControlBase_ctor_mNumStates_witness:
  "IButtonControlBase_ctor (ex_plug 3) (ex_base (Num 0)) 0 2 = Inr (ex_button 4 (Num 0)) \<and>
   uint (mNumStates (ex_button 4 (Num 0))) = trunc 3 + 1 \<and>
   IButtonControlBase_ctor (ex_plug 3) (ex_base (Num 0)) kNoParameter 5 =
     Inr (ex_button 5 (Num 0)) \<and>
   mNumStates (ex_button 5 (Num 0)) = 5"
  using IButtonControlBase_ctor_mNumStates [OF ex_ctor_bound]
    IButtonControlBase_ctor_mNumStates [OF ex_ctor_unbound] ex_ctor_bound ex_ctor_unbound
  by (simp add: ex_plug_def)

text \<open>
  Counterexample to C1 as stated: a bound parameter of range 2.5 gives a button of 3
  states, and 3 is not the range plus 1.
\<close>

theorem IButtonControlBase_ctor_mNumStates_counterexample:
  "IButtonControlBase_ctor (ex_plug (5 / 2)) (ex_base (Num 0)) 0 2 =
     Inr (ex_button 3 (Num 0)) \<and>
   GetParam (ex_plug (5 / 2)) 0 = Some \<lparr>GetRange = Num (5 / 2)\<rparr> \<and>
   d_of_uint32 (mNumStates (ex_button 3 (Num 0))) \<noteq> d_add (Num (5 / 2)) (Num 1)"
  by (simp add: IButtonControlBase_ctor_def ex_plug_def ex_base_def ex_button_def
      d_to_uint32_def trunc_def IControl.defs IButtonControlBase.defs d_of_uint32_def)

section \<open>The assertion of the button constructor\<close>

text \<open>
  C9, as the code has it. The constructor of \<^verbatim>\<open>IButtonControlBase\<close> passes its assertion
  and returns the object when \<^verbatim>\<open>paramIdx = kNoParameter\<close> and \<^verbatim>\<open>numStates >= 2\<close>, and
  when \<^verbatim>\<open>paramIdx > -1\<close> and the bound parameter has a range of at least 1 and below
  4294967295.
\<close>

theorem IButtonControlBase_ctor_assert:
  "(paramIdx = kNoParameter \<and> 2 \<le> numStates \<longrightarrow>
      IButtonControlBase_ctor plug base paramIdx numStates =
        Inr (IControl.extend base (IButtonControlBase.fields numStates))) \<and>
   (paramIdx > - 1 \<and> GetParam plug paramIdx = Some p \<and> GetRange p = Num r \<and>
    1 \<le> r \<and> r < 4294967295 \<longrightarrow>
      IButtonControlBase_ctor plug base paramIdx numStates =
        Inr (IControl.extend base
               (IButtonControlBase.fields (word_of_int (trunc r) + 1))))"
proof (intro conjI impI)
  assume "paramIdx = kNoParameter \<and> 2 \<le> numStates"
  then have "paramIdx = - 1" "1 < numStates"
    by (auto simp: kNoParameter_def word_less_def word_le_def)
  then show "IButtonControlBase_ctor plug base paramIdx numStates =
        Inr (IControl.extend base (IButtonControlBase.fields numStates))"
    by (simp add: IButtonControlBase_ctor_def)
next
  assume a: "paramIdx > - 1 \<and> GetParam plug paramIdx = Some p \<and> GetRange p = Num r \<and>
    1 \<le> r \<and> r < 4294967295"
  then have t: "1 \<le> trunc r" "trunc r \<le> 4294967294"
    using trunc_range by auto
  let ?w = "word_of_int (trunc r) :: 32 word"
  have u: "uint ?w = trunc r"
    using t by (simp add: uint_word_of_int)
  have "uint (?w + 1) = trunc r + 1"
    using t u by (simp add: uint_word_ariths)
  then have "1 < ?w + 1"
    using t by (simp add: word_less_def)
  moreover have "d_to_uint32 (Num r) = Some ?w"
    using t by (simp add: d_to_uint32_def)
  ultimately show "IButtonControlBase_ctor plug base paramIdx numStates =
        Inr (IControl.extend base (IButtonControlBase.fields (word_of_int (trunc r) + 1)))"
    using a by (simp add: IButtonControlBase_ctor_def)
qed

text \<open>
  Witness for C9: the default \<^verbatim>\<open>numStates = 2\<close> without a parameter, and a bound
  parameter of range 3.
\<close>

theorem IButtonControlBase_ctor_assert_witness:
  "IButtonControlBase_ctor (ex_plug 3) (ex_base (Num 0)) kNoParameter 2 =
     Inr (ex_button 2 (Num 0)) \<and>
   IButtonControlBase_ctor (ex_plug 3) (ex_base (Num 0)) 0 7 = Inr (ex_button 4 (Num 0))"
  using
    IButtonControlBase_ctor_assert
      [of kNoParameter 2 "ex_plug 3" "ex_base (Num 0)" "\<lparr>GetRange = Num 3\<rparr>" 3]
    IButtonControlBase_ctor_assert
      [of 0 7 "ex_plug 3" "ex_base (Num 0)" "\<lparr>GetRange = Num 3\<rparr>" 3]
  by (simp add: ex_plug_def ex_base_def ex_button_def kNoParameter_def trunc_def
      IControl.defs IButtonControlBase.defs)

text \<open>
  Counterexample to C9 as stated: a bound parameter of range 4294967295 has a range of
  at least 1, the addition wraps around to 0, and the assertion fails.
\<close>

theorem IButtonControlBase_ctor_assert_counterexample:
  "GetParam (ex_plug 4294967295) 0 = Some \<lparr>GetRange = Num 4294967295\<rparr> \<and>
   (1::real) \<le> 4294967295 \<and>
   IButtonControlBase_ctor (ex_plug 4294967295) (ex_base (Num 0)) 0 2 = Inl AssertionFailed"
  by (simp add: IButtonControlBase_ctor_def ex_plug_def d_to_uint32_def trunc_def
      word_less_def)

section \<open>Clicking a button\<close>

text \<open>
  C8. On a button of two states, \<^verbatim>\<open>OnMouseDown\<close> sets the value to 1 if it was zero and
  to 0 otherwise, and for a value that is 0 or 1 two clicks in a row restore it. The
  closing call \<^verbatim>\<open>SetDirty()\<close> is defined outside this file: the statement holds for
  every \<^verbatim>\<open>SetDirty\<close> that leaves a value of 0 or 1 as it is.
\<close>

theorem OnMouseDown_toggle:
  assumes two: "mNumStates c = 2"
    and sd: "\<forall>b. mValue b = Num 0 \<or> mValue b = Num 1 \<longrightarrow> mValue (SetDirty b) = mValue b"
  shows "mValue (fst (OnMouseDown SetDirty c gui)) =
           (if mValue c = Num 0 then Num 1 else Num 0) \<and>
         (mValue c = Num 0 \<or> mValue c = Num 1 \<longrightarrow>
            mValue (fst (OnMouseDown SetDirty (fst (OnMouseDown SetDirty c gui)) gui')) =
              mValue c)"
proof -
  have step: "mValue (fst (OnMouseDown SetDirty d g)) =
                (if mValue d = Num 0 then Num 1 else Num 0)"
    if "mNumStates d = 2" for d :: "('a, 'b, 'c) IButtonControlBase_scheme" and g
  proof -
    let ?d1 = "d\<lparr>mValue := d_of_bool (\<not> d_to_bool (mValue d))\<rparr>"
    have v: "mValue (IControl.truncate ?d1) = (if mValue d = Num 0 then Num 1 else Num 0)"
      by (simp add: IControl.defs d_of_bool_def d_to_bool_def)
    then have "mValue (SetDirty (IControl.truncate ?d1)) = mValue (IControl.truncate ?d1)"
      using sd by (metis (full_types))
    with v show ?thesis
      using that by (simp add: OnMouseDown_two_states call_base_mValue)
  qed
  let ?c1 = "fst (OnMouseDown SetDirty c gui)"
  have first: "mValue ?c1 = (if mValue c = Num 0 then Num 1 else Num 0)"
    using step [OF two] .
  have "mNumStates ?c1 = 2"
    using two by (simp add: OnMouseDown_mNumStates)
  then have "mValue (fst (OnMouseDown SetDirty ?c1 gui')) =
               (if mValue ?c1 = Num 0 then Num 1 else Num 0)"
    by (rule step)
  with first show ?thesis by auto
qed

text \<open>Witness for C8: a two-state button at 0 goes to 1 and back to 0.\<close>

theorem OnMouseDown_toggle_witness:
  "mValue (fst (OnMouseDown id (ex_button 2 (Num 0)) ())) = Num 1 \<and>
   mValue (fst (OnMouseDown id (fst (OnMouseDown id (ex_button 2 (Num 0)) ())) ())) = Num 0"
  using OnMouseDown_toggle [of "ex_button 2 (Num 0)" id "()" "()"]
  by (simp add: ex_button_def)

text \<open>
  C2, the code at a button of four states. The step is \<open>1/4 - 1 = -3/4\<close>. From the
  value 3/4 the sum is 0 and \<^verbatim>\<open>fmod(1., 0.)\<close> is NaN: the value handed to \<^verbatim>\<open>SetDirty\<close>
  is not in the range from 0 to 1. From 0 the value becomes 1/4, and from 1/4 it becomes
  0 again: clicking does not walk through four states.
\<close>

theorem OnMouseDown_four_states:
  "fst (OnMouseDown SetDirty (ex_button 4 (Num (3 / 4))) gui) =
     call_base SetDirty (ex_button 4 NaN) \<and>
   fst (OnMouseDown SetDirty (ex_button 4 (Num 0)) gui) =
     call_base SetDirty (ex_button 4 (Num (1 / 4))) \<and>
   fst (OnMouseDown SetDirty (ex_button 4 (Num (1 / 4))) gui) =
     call_base SetDirty (ex_button 4 (Num 0))"
  by (simp add: OnMouseDown_def ex_button_def d_of_uint32_def d_sub_def trunc_def)

section \<open>Facts about the switch\<close>

lemma IButtonControlBase_ctor_gt1:
  assumes "IButtonControlBase_ctor plug base paramIdx numStates = Inr b"
  shows "1 < mNumStates b"
  using assms
  by (auto simp: IButtonControlBase_ctor_def IControl.defs IButtonControlBase.defs
      split: option.splits if_splits sum.splits)

lemma IVSwitchControl_ctor_gt1:
  assumes "IVSwitchControl_ctor plug base paramIdx fgColor bgColor numStates dir = Inr c0"
  shows "1 < mNumStates c0"
  using assms IButtonControlBase_ctor_gt1
  by (fastforce simp: IVSwitchControl_ctor_def IButtonControlBase.defs IVSwitchControl.defs
      split: sum.splits)

lemma IVSwitchControl_ctor_mStep:
  assumes "IVSwitchControl_ctor plug base paramIdx fgColor bgColor numStates dir = Inr c0"
  shows "mStep c0 = d_sub (d_div (Num 1) (d_of_uint32 (mNumStates c0))) (Num 1)"
  using assms
  by (auto simp: IVSwitchControl_ctor_def IButtonControlBase.defs IVSwitchControl.defs
      split: sum.splits)

lemma step_value:
  fixes n :: "32 word"
  assumes "1 < n"
  shows "d_sub (d_div (Num 1) (d_of_uint32 n)) (Num 1) = Num (1 / real (unat n) - 1)"
proof -
  have "unat n \<noteq> 0" using assms by (metis unat_eq_zero word_not_simps(1))
  then show ?thesis by (simp add: d_of_uint32_def d_sub_def del: of_nat_unat)
qed

lemma quotient_range:
  fixes v s :: real
  assumes "0 \<le> v" "v \<le> 1" "s \<le> - (1 / 2)"
  shows "- 2 \<le> trunc (v / s) \<and> trunc (v / s) \<le> 0"
proof -
  have q0: "v / s \<le> 0" using assms by (simp add: divide_nonneg_neg)
  have "- (v / s) = v / (- s)" by simp
  also have "\<dots> \<le> v / (1 / 2)" using assms by (intro divide_left_mono) auto
  also have "\<dots> \<le> 2" using assms by simp
  finally have q2: "- 2 \<le> v / s" by simp
  show ?thesis
    using q0 q2 by (auto simp: trunc_def le_floor_iff floor_le_iff)
qed

text \<open>
  On a switch built by the constructor and holding a value between 0 and 1, the
  conversion in the first statement of \<^verbatim>\<open>Draw\<close> is defined. The step is negative, at
  most \<open>-1/2\<close>, so the state index is \<open>-2\<close>, \<open>-1\<close> or \<open>0\<close>.
\<close>

lemma IVSwitchControl_state_defined:
  assumes ctor:
      "IVSwitchControl_ctor plug base paramIdx fgColor bgColor numStates dir = Inr c0"
    and same: "mNumStates c = mNumStates c0" "mStep c = mStep c0"
    and v: "mValue c = Num v" "0 \<le> v" "v \<le> 1"
  shows "\<exists>state. IVSwitchControl_state c = Some state \<and> - 2 \<le> state \<and> state \<le> 0"
proof -
  define s where "s = 1 / real (unat (mNumStates c0)) - 1"
  have gt: "1 < mNumStates c0" using ctor by (rule IVSwitchControl_ctor_gt1)
  then have "1 < unat (mNumStates c0)" by (simp add: word_less_nat_alt)
  then have "2 \<le> real (unat (mNumStates c0))" by (simp del: of_nat_unat)
  then have "1 / real (unat (mNumStates c0)) \<le> 1 / 2"
    by (simp add: field_simps del: of_nat_unat)
  then have s: "s \<le> - (1 / 2)" by (simp add: s_def del: of_nat_unat)
  have ms: "mStep c = Num s"
    using IVSwitchControl_ctor_mStep [OF ctor] step_value [OF gt] same
    by (simp add: s_def del: of_nat_unat)
  have t: "- 2 \<le> trunc (v / s) \<and> trunc (v / s) \<le> 0"
    using v s by (intro quotient_range) auto
  have "IVSwitchControl_state c = Some (trunc (v / s))"
    using ms v s t by (simp add: IVSwitchControl_state_def d_to_int_def)
  with t show ?thesis by blast
qed

lemma ex_switch_ctor2:
  "IVSwitchControl_ctor (ex_plug 3) (ex_base v) kNoParameter ''black'' ''white'' 2 dir =
     Inr (ex_switch 2 dir v)"
  by (simp add: IVSwitchControl_ctor_def IButtonControlBase_ctor_def kNoParameter_def
      ex_base_def ex_switch_def IControl.defs IButtonControlBase.defs IVSwitchControl.defs
      d_of_uint32_def d_sub_def)

lemma ex_switch_ctor4:
  "IVSwitchControl_ctor (ex_plug 3) (ex_base v) kNoParameter ''black'' ''white'' 4 dir =
     Inr (ex_switch 4 dir v)"
  by (simp add: IVSwitchControl_ctor_def IButtonControlBase_ctor_def kNoParameter_def
      ex_base_def ex_switch_def IControl.defs IButtonControlBase.defs IVSwitchControl.defs
      d_of_uint32_def d_sub_def)

lemma ex_switch4_state: "IVSwitchControl_state (ex_switch 4 dir (Num 0)) = Some 0"
  by (simp add: IVSwitchControl_state_def ex_switch_def d_to_int_def trunc_def)

section \<open>The state index of a switch\<close>

text \<open>
  C3, the code at a switch of two states (the default). The constructor stores the step
  \<open>1/2 - 1 = -1/2\<close>. One click takes the value from 0 to 1, and \<^verbatim>\<open>Draw\<close> then computes
  the state index \<open>1 / (-1/2) = -2\<close>, which is not one of the cells 0 and 1, and asks
  \<^verbatim>\<open>SubRectVertical\<close> for the cell \<open>-2\<close> of 2.
\<close>

theorem IVSwitchControl_state_two_states:
  "IVSwitchControl_ctor (ex_plug 3) (ex_base (Num 0)) kNoParameter ''black'' ''white'' 2
     kVertical = Inr (ex_switch 2 kVertical (Num 0)) \<and>
   fst (OnMouseDown SetDirty (ex_switch 2 kVertical (Num 0)) gui) =
     call_base SetDirty (ex_switch 2 kVertical (Num 1)) \<and>
   IVSwitchControl_state (ex_switch 2 kVertical (Num 1)) = Some (- 2) \<and>
   IVSwitchControl_Draw ex_ops platform_int (ex_switch 2 kVertical (Num 1)) [] =
     (ex_switch 2 kVertical (Num 1),
      [OpFillRect ''white'' Bounds,
       OpFillRect ''black'' (Padded (SubV Bounds 2 (- 2)) (- 10))])"
  using ex_switch_ctor2 [of "Num 0" kVertical]
  by (simp add: OnMouseDown_def ex_switch_def d_of_bool_def d_to_bool_def
      IVSwitchControl_Draw_def IVSwitchControl_state_int_def IVSwitchControl_state_def
      d_to_int_def trunc_def FillRect_def ex_ops_def)

section \<open>Drawing\<close>



text \<open>
  C5. \<^verbatim>\<open>IBTextControl::Draw\<close>, on the control that the constructor built, adds exactly
  one operation to the graphics context: \<^verbatim>\<open>DrawBitmapedText\<close> with the bitmap, the
  control's rectangle, text style and blend, and the string, the vertical-centre flag,
  the multi-line flag, the character width, height and offset given to the constructor.
\<close>

theorem IBTextControl_Draw_call:
  "snd (IBTextControl_Draw
          (IBTextControl_ctor base textBitmap str charWidth charHeight charOffset multiLine
             vCenter bl) graphics) =
   graphics @ [OpDrawBitmapedText textBitmap (mRECT base) (mText base) (mBlend base) str
                 vCenter multiLine charWidth charHeight charOffset]"
  by (simp add: IBTextControl_Draw_def IBTextControl_ctor_def DrawBitmapedText_def
      IControl.defs ITextControl.defs IBTextControl.defs)

text \<open>
  C6. \<^verbatim>\<open>Draw\<close> of \<^verbatim>\<open>IVSwitchControl\<close> and of \<^verbatim>\<open>IBTextControl\<close> returns the control with
  every member as it was, and the graphics context it was given with drawing
  operations added at the end.
\<close>

theorem Draw_leaves_control:
  "(IVSwitchControl_Draw ops platform_int c graphics = (c', graphics') \<longrightarrow>
      c' = c \<and> (\<exists>issued. graphics' = graphics @ issued)) \<and>
   (IBTextControl_Draw t g = (t', g') \<longrightarrow>
      t' = t \<and> (\<exists>issued. g' = g @ issued))"
  by (auto simp: IVSwitchControl_Draw_def IBTextControl_Draw_def FillRect_def
      DrawBitmapedText_def Let_def)

text \<open>Witness for C6: a vertical switch of four states and a text control.\<close>

theorem Draw_leaves_control_witness:
  "IVSwitchControl_Draw ex_ops ex_platform_int (ex_switch 4 kVertical (Num 0)) [] =
     (ex_switch 4 kVertical (Num 0),
      [OpFillRect ''white'' Bounds,
       OpFillRect ''black'' (Padded (SubV Bounds 4 0) (- 10))]) \<and>
   IBTextControl_Draw
     (IBTextControl_ctor ex_text_base ''font'' ''Gain'' 6 12 0 False True ()) [] =
     (IBTextControl_ctor ex_text_base ''font'' ''Gain'' 6 12 0 False True (),
      [OpDrawBitmapedText ''font'' Bounds ''style'' ''blend'' ''Gain'' True False 6 12 0])"
  using Draw_leaves_control [where ops = ex_ops and platform_int = ex_platform_int
      and c = "ex_switch 4 kVertical (Num 0)"
      and graphics = "[]" and c' = "ex_switch 4 kVertical (Num 0)"
      and graphics' = "[OpFillRect ''white'' Bounds,
                        OpFillRect ''black'' (Padded (SubV Bounds 4 0) (- 10))]"
      and t = "IBTextControl_ctor ex_text_base ''font'' ''Gain'' 6 12 0 False True ()"
      and g = "[]"
      and t' = "IBTextControl_ctor ex_text_base ''font'' ''Gain'' 6 12 0 False True ()"
      and g' = "[OpDrawBitmapedText ''font'' Bounds ''style'' ''blend'' ''Gain'' True False
                   6 12 0]"]
  by (simp add: IVSwitchControl_Draw_def IVSwitchControl_state_int_def
      IVSwitchControl_state_def ex_switch_def ex_ops_def
      d_to_int_def trunc_def FillRect_def IBTextControl_Draw_def IBTextControl_ctor_def
      DrawBitmapedText_def ex_text_base_def IControl.defs ITextControl.defs
      IBTextControl.defs)

section \<open>The step of a switch and the step of a click\<close>

text \<open>
  Take a switch built by the constructor, in any later state that has the
  \<^verbatim>\<open>mNumStates\<close> and \<^verbatim>\<open>mStep\<close> of the construction. \<^verbatim>\<open>OnMouseDown\<close> keeps both members,
  and with more than two states the step it adds to the value before \<^verbatim>\<open>fmod\<close> is the
  stored \<^verbatim>\<open>mStep\<close>.
\<close>

lemma IVSwitchControl_mStep_is_click_step:
  assumes "IVSwitchControl_ctor plug base paramIdx fgColor bgColor numStates dir = Inr c0"
    and "mNumStates c = mNumStates c0" and "mStep c = mStep c0"
  shows "mNumStates (fst (OnMouseDown SetDirty c gui)) = mNumStates c0 \<and>
         mStep (fst (OnMouseDown SetDirty c gui)) = mStep c0 \<and>
         (mNumStates c > 2 \<longrightarrow>
            fst (OnMouseDown SetDirty c gui) =
              call_base SetDirty
                (c\<lparr>mValue := d_fmod (Num 1) (d_add (mValue c) (mStep c))\<rparr>))"
proof -
  have "mStep c = d_sub (d_div (Num 1) (d_of_uint32 (mNumStates c))) (Num 1)"
    using assms IVSwitchControl_ctor_mStep by metis
  then have "mNumStates c > 2 \<longrightarrow>
            fst (OnMouseDown SetDirty c gui) =
              call_base SetDirty
                (c\<lparr>mValue := d_fmod (Num 1) (d_add (mValue c) (mStep c))\<rparr>)"
    by (auto simp: OnMouseDown_def Let_def)
  then show ?thesis
    using assms by (simp add: OnMouseDown_mNumStates OnMouseDown_mStep)
qed

text \<open>
  An instance: the switch of four states, at the value 1/2. The click adds the stored
  step \<open>-3/4\<close> and \<^verbatim>\<open>fmod(1., -1/4)\<close> is 0.
\<close>

lemma IVSwitchControl_mStep_is_click_step_instance:
  "IVSwitchControl_ctor (ex_plug 3) (ex_base (Num 0)) kNoParameter ''black'' ''white'' 4
     kVertical = Inr (ex_switch 4 kVertical (Num 0)) \<and>
   fst (OnMouseDown id (ex_switch 4 kVertical (Num (1 / 2))) ()) =
     ex_switch 4 kVertical (Num 0)"
  using IVSwitchControl_mStep_is_click_step [OF ex_switch_ctor4 [of "Num 0" kVertical],
      where c = "ex_switch 4 kVertical (Num (1 / 2))" and SetDirty = id and gui = "()"]
    ex_switch_ctor4 [of "Num 0" kVertical]
  by (simp add: ex_switch_def call_base_def IControl.defs trunc_def)

text \<open>
  C10, the code at a switch of four states. The constructor stores the step
  \<open>1/4 - 1 = -3/4\<close>, the step of a click. At the value 0 the state index of \<^verbatim>\<open>Draw\<close> is
  0. One click stores \<^verbatim>\<open>fmod(1., -3/4)\<close>, which is 1/4, and the state index
  \<open>(1/4) / (-3/4)\<close> rounds to 0 again; the next click returns the value to 0. The state
  index does not count the clicks.
\<close>

theorem IVSwitchControl_state_after_click:
  "IVSwitchControl_ctor (ex_plug 3) (ex_base (Num 0)) kNoParameter ''black'' ''white'' 4
     kVertical = Inr (ex_switch 4 kVertical (Num 0)) \<and>
   mStep (ex_switch 4 kVertical (Num 0)) = Num (- 3 / 4) \<and>
   IVSwitchControl_state (ex_switch 4 kVertical (Num 0)) = Some 0 \<and>
   fst (OnMouseDown SetDirty (ex_switch 4 kVertical (Num 0)) gui) =
     call_base SetDirty (ex_switch 4 kVertical (Num (1 / 4))) \<and>
   IVSwitchControl_state (ex_switch 4 kVertical (Num (1 / 4))) = Some 0 \<and>
   fst (OnMouseDown SetDirty (ex_switch 4 kVertical (Num (1 / 4))) gui) =
     call_base SetDirty (ex_switch 4 kVertical (Num 0))"
  using ex_switch_ctor4 [of "Num 0" kVertical]
  by (simp add: OnMouseDown_def ex_switch_def
      IVSwitchControl_state_def d_to_int_def trunc_def d_of_uint32_def d_sub_def)

end
